theory Spec2Isabelle
  imports Main
begin

section \<open>Commit-reveal client of the five-move wagering game\<close>

text \<open>
  The repository is the browser client of a two-party Rock-Paper-Scissors-Spock-Lizard
  wager that is settled by a contract. The definitions below embed the functions of
  \<^verbatim>\<open>src/utils/hashHelpers.js\<close> and the handlers of the components
  \<^verbatim>\<open>GameCreation\<close>, \<^verbatim>\<open>GameJoin\<close>, \<^verbatim>\<open>GameReveal\<close> and
  \<^verbatim>\<open>GameStatus\<close>. A handler's result is the first thing it does to the outside:
  the alert it shows, or the contract call it issues.

  Numbers. A JavaScript Number that holds an integer is modelled as that \<open>int\<close>. The move
  conversions add and subtract on Numbers, so their result is rounded to the nearest
  Number (\<open>roundToNumber\<close>). The timestamps are seconds since 1970, far below \<open>2^53\<close>,
  where \<open>-\<close> and the comparisons are exact. BigInt values are unbounded; the ones read
  from the contract are unsigned and modelled as \<open>nat\<close>.

  Strings. A \<open>char\<close> is a code unit in the range \<open>0..255\<close>; the strings the client handles
  (hexadecimal salts, hashes and addresses) stay in ASCII.
\<close>

subsection \<open>String helpers\<close>

text \<open>\<^verbatim>\<open>s.startsWith(p)\<close>.\<close>

definition startsWith :: "string \<Rightarrow> string \<Rightarrow> bool" where
  "startsWith s p = (take (length p) s = p)"

text \<open>\<^verbatim>\<open>s.padStart(n, "0")\<close> with a one-character filler: nothing is cut from a longer string.\<close>

definition padStart :: "nat \<Rightarrow> char \<Rightarrow> string \<Rightarrow> string" where
  "padStart n c s = replicate (n - length s) c @ s"

text \<open>\<^verbatim>\<open>s.toLowerCase()\<close> on ASCII: the letters \<open>A..Z\<close> move to \<open>a..z\<close>.\<close>

definition lowerChar :: "char \<Rightarrow> char" where
  "lowerChar c = (let n = (of_char c :: nat) in if 65 \<le> n \<and> n \<le> 90 then char_of (n + 32) else c)"

definition toLowerCase :: "string \<Rightarrow> string" where
  "toLowerCase s = map lowerChar s"

subsection \<open>Hexadecimal text to BigInt\<close>

definition isHexDigit :: "char \<Rightarrow> bool" where
  "isHexDigit c =
     (let n = (of_char c :: nat)
      in (48 \<le> n \<and> n \<le> 57) \<or> (65 \<le> n \<and> n \<le> 70) \<or> (97 \<le> n \<and> n \<le> 102))"

definition hexDigitValue :: "char \<Rightarrow> nat" where
  "hexDigitValue c =
     (let n = (of_char c :: nat)
      in if n \<le> 57 then n - 48 else if n \<le> 70 then n - 55 else n - 87)"

text \<open>The white space that the string-to-BigInt conversion trims, within \<open>0..255\<close>:
  tab, line feed, vertical tab, form feed, carriage return, space, no-break space.\<close>

definition isWhiteSpace :: "char \<Rightarrow> bool" where
  "isWhiteSpace c = ((of_char c :: nat) \<in> {9, 10, 11, 12, 13, 32, 160})"

definition hexValue :: "string \<Rightarrow> nat" where
  "hexValue ds = foldl (\<lambda>acc c. 16 * acc + hexDigitValue c) 0 ds"

text \<open>
  \<^verbatim>\<open>BigInt("0x" + digits)\<close>. The text starts with \<open>0x\<close>, so only trailing white space is
  trimmed; what remains after \<open>0x\<close> must be one or more hexadecimal digits, otherwise the
  conversion throws a SyntaxError (\<open>None\<close>).
\<close>

definition BigInt_0x :: "string \<Rightarrow> nat option" where
  "BigInt_0x digits =
     (let t = rev (dropWhile isWhiteSpace (rev digits))
      in if t = [] \<or> \<not> list_all isHexDigit t then None else Some (hexValue t))"

text \<open>
  The shapes of hexadecimal text that the library tells apart: \<open>0x\<close> followed by
  hexadecimal digits (a hex string), by exactly 40 of them (an address), by exactly 64
  of them (32 bytes).
\<close>

definition isHexString :: "string \<Rightarrow> bool" where
  "isHexString s = (startsWith s ''0x'' \<and> list_all isHexDigit (drop 2 s))"

definition isHexAddress :: "string \<Rightarrow> bool" where
  "isHexAddress s = (isHexString s \<and> length s = 42)"

definition isBytes32Hex :: "string \<Rightarrow> bool" where
  "isBytes32Hex s = (isHexString s \<and> length s = 66)"

text \<open>\<^verbatim>\<open>ethers.hexlify(bytes)\<close>: \<open>0x\<close> and two lower-case digits for each byte.\<close>

definition hexChar :: "nat \<Rightarrow> char" where
  "hexChar d = ''0123456789abcdef'' ! d"

definition hexlify :: "nat list \<Rightarrow> string" where
  "hexlify bytes = ''0x'' @ concat (map (\<lambda>b. [hexChar (b div 16), hexChar (b mod 16)]) bytes)"

subsection \<open>Arithmetic on Numbers\<close>

text \<open>
  A Number is an IEEE-754 double: every integer of magnitude up to \<open>2^53\<close> is a Number,
  and a larger integer is rounded to 53 significant bits, to the nearest Number and to
  the even one of two nearest. \<open>roundToNumber n\<close> is the Number that an exact integer
  result \<open>n\<close> becomes (a finite Number plus or minus one never overflows).
\<close>

fun bitLength :: "nat \<Rightarrow> nat" where
  "bitLength n = (if n = 0 then 0 else Suc (bitLength (n div 2)))"

declare bitLength.simps [simp del]

definition roundToNumber :: "int \<Rightarrow> int" where
  "roundToNumber n =
     (if \<bar>n\<bar> \<le> 2 ^ 53 then n
      else
        let a = nat \<bar>n\<bar>;
            e = bitLength a - 53;
            q = a div 2 ^ e;
            r = a mod 2 ^ e;
            m = (if 2 * r > 2 ^ e \<or> (2 * r = 2 ^ e \<and> odd q) then q + 1 else q)
        in sgn n * int (m * 2 ^ e))"

subsection \<open>hashHelpers.js\<close>

text \<open>
  \<^verbatim>\<open>generateSalt()\<close>: the hexadecimal text of \<^verbatim>\<open>ethers.randomBytes(32)\<close>, which is an
  argument here.
\<close>

definition generateSalt :: "nat list \<Rightarrow> string" where
  "generateSalt randomBytes = hexlify randomBytes"

datatype error =
    InvalidMove       \<comment> \<open>\<^verbatim>\<open>Error("Move must be 1-5 (Rock, Paper, Scissors, Spock, Lizard)")\<close>\<close>
  | SyntaxError       \<comment> \<open>thrown by \<^verbatim>\<open>BigInt\<close> on text that is not a number\<close>
  | ValueOutOfBounds  \<comment> \<open>thrown by the ABI coder on a value that does not fit its type\<close>
  | InvalidEthAmount  \<comment> \<open>\<^verbatim>\<open>Error("Invalid ETH amount")\<close>\<close>

type_synonym byte = nat

text \<open>The \<open>n\<close>-byte big-endian representation of \<open>v\<close> (of \<open>v mod 256 ^ n\<close>).\<close>

fun be_bytes :: "nat \<Rightarrow> nat \<Rightarrow> byte list" where
  "be_bytes 0 v = []"
| "be_bytes (Suc n) v = be_bytes n (v div 256) @ [v mod 256]"

text \<open>
  \<^verbatim>\<open>ethers.AbiCoder.defaultAbiCoder().encode(["uint8", "uint256"], [a, b])\<close>: the standard
  (not the packed) ABI encoding. Each static value is checked against its type and
  written as one 32-byte big-endian word.
\<close>

definition abi_encode_uint8_uint256 :: "int \<Rightarrow> nat \<Rightarrow> error + byte list" where
  "abi_encode_uint8_uint256 a b =
     (if a < 0 \<or> a > 255 \<or> b \<ge> 2 ^ 256 then Inl ValueOutOfBounds
      else Inr (be_bytes 32 (nat a) @ be_bytes 32 b))"

text \<open>
  \<^verbatim>\<open>createCommitment(moveIndex, saltHex)\<close>. The hash \<^verbatim>\<open>ethers.keccak256\<close> is a
  parameter: the function is defined for any hash of byte strings.
\<close>

definition createCommitment :: "(byte list \<Rightarrow> 'h) \<Rightarrow> int \<Rightarrow> string \<Rightarrow> error + 'h" where
  "createCommitment keccak256 moveIndex saltHex =
     (if moveIndex < 1 \<or> moveIndex > 5 then Inl InvalidMove
      else
        let salt = (if \<not> startsWith saltHex ''0x'' then ''0x'' @ saltHex else saltHex);
            saltClean = padStart 64 CHR ''0'' (drop 2 salt)
        in case BigInt_0x saltClean of
             None \<Rightarrow> Inl SyntaxError
           | Some saltBigInt \<Rightarrow>
               (case abi_encode_uint8_uint256 moveIndex saltBigInt of
                  Inl e \<Rightarrow> Inl e
                | Inr encoded \<Rightarrow> Inr (keccak256 encoded)))"

definition uiMoveToContract :: "int \<Rightarrow> int" where
  "uiMoveToContract uiMove = roundToNumber (uiMove + 1)"

definition contractMoveToUI :: "int \<Rightarrow> int" where
  "contractMoveToUI contractMove = roundToNumber (contractMove - 1)"

text \<open>\<^verbatim>\<open>getMoveName(uiMove)\<close>: \<^verbatim>\<open>moves[uiMove] || "Unknown"\<close>.\<close>

definition getMoveName :: "int \<Rightarrow> string" where
  "getMoveName uiMove =
     (let moves = [''Rock'', ''Paper'', ''Scissors'', ''Spock'', ''Lizard'']
      in if 0 \<le> uiMove \<and> uiMove < int (length moves) then moves ! nat uiMove else ''Unknown'')"


definition parseEth :: "(string \<Rightarrow> int option) \<Rightarrow> string \<Rightarrow> error + int" where
  "parseEth parseEther ethAmount =
     (case parseEther ethAmount of None \<Rightarrow> Inl InvalidEthAmount | Some wei \<Rightarrow> Inr wei)"

subsection \<open>GameCreation: exporting the secret, deploying the game\<close>

text \<open>\<^verbatim>\<open>xs[i]\<close> on a JavaScript array: \<open>undefined\<close> (\<open>None\<close>) outside the array.\<close>

definition array_get :: "'a list \<Rightarrow> int \<Rightarrow> 'a option" where
  "array_get xs i = (if 0 \<le> i \<and> i < int (length xs) then Some (xs ! nat i) else None)"

text \<open>The \<^verbatim>\<open>MOVES\<close> table of \<^verbatim>\<open>GameCreation\<close>, \<^verbatim>\<open>GameJoin\<close> and \<^verbatim>\<open>GameReveal\<close>.\<close>

definition MOVES :: "string list" where
  "MOVES = [''Rock'', ''Paper'', ''Scissors'', ''Spock'', ''Lizard'']"

text \<open>
  \<^verbatim>\<open>handleGenerateSalt\<close>: the new values of the component's \<open>salt\<close> and \<open>commitment\<close>,
  or the error of the alert "Error generating salt: ..." (the state is unchanged then).
  Here \<^verbatim>\<open>ethers.keccak256\<close> gives the hash as text. Changing the move in the form clears
  both values, so a non-empty \<open>salt\<close> and \<open>commitment\<close> always come from this function at
  the move shown.
\<close>

definition handleGenerateSalt ::
  "(byte list \<Rightarrow> string) \<Rightarrow> nat list \<Rightarrow> int \<Rightarrow> error + (string \<times> string)" where
  "handleGenerateSalt keccak256 randomBytes move =
     (let newSalt = generateSalt randomBytes;
          contractMove = uiMoveToContract move
      in case createCommitment keccak256 contractMove newSalt of
           Inl e \<Rightarrow> Inl e
         | Inr hash \<Rightarrow> Inr (newSalt, hash))"

text \<open>
  The object \<^verbatim>\<open>secretData\<close> that \<^verbatim>\<open>handleDownloadSecret\<close> writes: the fields
  \<^verbatim>\<open>move\<close>, \<^verbatim>\<open>moveName\<close>, \<^verbatim>\<open>salt\<close>, \<^verbatim>\<open>commitment\<close>, \<^verbatim>\<open>createdAt\<close>.
  \<^verbatim>\<open>moveName\<close> is \<^verbatim>\<open>MOVES[move]\<close>, which may be \<open>undefined\<close>.
\<close>

record secretData =
  sd_move :: int
  sd_moveName :: "string option"
  sd_salt :: string
  sd_commitment :: string
  sd_createdAt :: string

text \<open>
  The form of \<^verbatim>\<open>new Date().toISOString()\<close>: \<open>YYYY-MM-DDTHH:mm:ss.sssZ\<close>, where each \<open>d\<close>
  of the pattern is a decimal digit.
\<close>

definition isIsoTimestamp :: "string \<Rightarrow> bool" where
  "isIsoTimestamp s =
     list_all2 (\<lambda>p c. if p = CHR ''d'' then c \<in> set ''0123456789'' else c = p)
       ''dddd-dd-ddTdd:dd:dd.dddZ'' s"

text \<open>
  \<^verbatim>\<open>handleDownloadSecret\<close>, with the component state (\<open>move\<close>, \<open>salt\<close>, \<open>commitment\<close>)
  and the clock reading \<^verbatim>\<open>new Date().toISOString()\<close> as arguments. \<open>None\<close>: the alert
  "Generate salt first!", nothing is written.
\<close>

definition handleDownloadSecret :: "string \<Rightarrow> int \<Rightarrow> string \<Rightarrow> string \<Rightarrow> secretData option" where
  "handleDownloadSecret isoNow move salt commitment =
     (if salt = [] then None
      else Some \<lparr> sd_move = uiMoveToContract move,
                  sd_moveName = array_get MOVES move,
                  sd_salt = salt,
                  sd_commitment = commitment,
                  sd_createdAt = isoNow \<rparr>)"



subsection \<open>The contract's public state, as the client reads it\<close>

text \<open>
  The getters \<^verbatim>\<open>j1()\<close>, \<^verbatim>\<open>j2()\<close>, \<^verbatim>\<open>c1Hash()\<close>, \<^verbatim>\<open>c2()\<close>, \<^verbatim>\<open>stake()\<close>,
  \<^verbatim>\<open>lastAction()\<close>, \<^verbatim>\<open>TIMEOUT()\<close> of the deployed game. \<open>c2\<close> is the second mover's
  move code, \<open>0\<close> while there is none.
\<close>

record contract_view =
  view_j1 :: string
  view_j2 :: string
  view_c1Hash :: string
  view_c2 :: nat
  view_stake :: nat
  view_lastAction :: nat
  view_TIMEOUT :: nat



subsection \<open>GameJoin\<close>

text \<open>\<^verbatim>\<open>formatEth\<close>: \<^verbatim>\<open>ethers.formatEther\<close> (a parameter), \<open>"0"\<close> when it throws.\<close>

definition formatEth :: "(nat \<Rightarrow> string option) \<Rightarrow> nat \<Rightarrow> string" where
  "formatEth formatEther weiAmount =
     (case formatEther weiAmount of None \<Rightarrow> ''0'' | Some s \<Rightarrow> s)"

record gameInfo =
  gi_j1 :: string
  gi_j2 :: string
  gi_stake :: string
  gi_c2 :: nat
  gi_hasPlayed :: bool
  gi_lastAction :: int
  gi_isJ2 :: bool

text \<open>
  \<^verbatim>\<open>loadGameInfo\<close>: the new value of the component's \<open>gameInfo\<close>. \<open>contract\<close> is the result
  of reading the getters (\<open>None\<close> when a read fails), \<open>getSigner\<close> the signer's address.
\<close>

definition loadGameInfo ::
  "(string \<Rightarrow> bool) \<Rightarrow> (nat \<Rightarrow> string option) \<Rightarrow> string \<Rightarrow> contract_view option
     \<Rightarrow> string option \<Rightarrow> gameInfo option" where
  "loadGameInfo isAddress formatEther contractAddress contract getSigner =
     (if contractAddress = [] \<or> \<not> isAddress contractAddress then None
      else
        case contract of
          None \<Rightarrow> None
        | Some v \<Rightarrow>
            (case getSigner of
               None \<Rightarrow> None
             | Some signerAddress \<Rightarrow>
                 let hasPlayed = (view_c2 v \<noteq> 0)
                 in Some \<lparr> gi_j1 = view_j1 v,
                           gi_j2 = view_j2 v,
                           gi_stake = formatEth formatEther (view_stake v),
                           gi_c2 = view_c2 v,
                           gi_hasPlayed = hasPlayed,
                           gi_lastAction = int (view_lastAction v),
                           gi_isJ2 = (toLowerCase signerAddress = toLowerCase (view_j2 v)) \<rparr>))"

datatype join_result =
    AlertInvalidContractAddress  \<comment> \<open>"Please enter a valid contract address!"\<close>
  | AlertLoadGameInfoFirst       \<comment> \<open>"Load game info first!"\<close>
  | AlertAlreadyPlayed           \<comment> \<open>"Player 2 has already played!"\<close>
  | AlertNotPlayer2              \<comment> \<open>"You are not player 2 of this game!"\<close>
  | AlertJoinError               \<comment> \<open>the \<^verbatim>\<open>catch\<close> branch: "Error joining game: ..."\<close>
  | Play int int                 \<comment> \<open>\<^verbatim>\<open>contract.play(contractMove, {value: stakeAmount})\<close>\<close>

text \<open>
  \<^verbatim>\<open>handleJoinGame\<close> up to the call of \<^verbatim>\<open>play\<close>; \<open>move\<close> is the UI index. The call
  prepares its transaction before anything is sent: the contract's address must be a hex
  string (another text is taken for a name to resolve, which fails for the texts that
  \<^verbatim>\<open>ethers.isAddress\<close> accepts), the move must fit \<^verbatim>\<open>uint8\<close> and the value must not
  be negative; otherwise the library throws into the \<^verbatim>\<open>catch\<close> branch.
\<close>

definition handleJoinGame ::
  "(string \<Rightarrow> bool) \<Rightarrow> (string \<Rightarrow> int option) \<Rightarrow> string option
     \<Rightarrow> string \<Rightarrow> gameInfo option \<Rightarrow> int \<Rightarrow> join_result" where
  "handleJoinGame isAddress parseEther getSigner contractAddress info move =
     (if contractAddress = [] \<or> \<not> isAddress contractAddress then AlertInvalidContractAddress
      else
        case info of
          None \<Rightarrow> AlertLoadGameInfoFirst
        | Some g \<Rightarrow>
            if gi_hasPlayed g then AlertAlreadyPlayed
            else if \<not> gi_isJ2 g then AlertNotPlayer2
            else
              (case getSigner of
                 None \<Rightarrow> AlertJoinError
               | Some signerAddress \<Rightarrow>
                   let contractMove = uiMoveToContract move
                   in (case parseEth parseEther (gi_stake g) of
                         Inl e \<Rightarrow> AlertJoinError
                       | Inr stakeAmount \<Rightarrow>
                           if \<not> isHexString contractAddress \<or> contractMove < 0
                              \<or> contractMove > 255 \<or> stakeAmount < 0
                             then AlertJoinError
                           else Play contractMove stakeAmount)))"

text \<open>
  What the \<^verbatim>\<open>GameJoin\<close> panel shows of the loaded game: the notice "You are not
  Player 2 of this game!", the notice "Player 2 has already played! Waiting for P1 to
  reveal.", and whether the Join button is disabled.
\<close>

record join_panel =
  jp_notPlayer2Notice :: bool
  jp_alreadyPlayedNotice :: bool
  jp_joinDisabled :: bool

definition renderGameJoin :: "bool \<Rightarrow> gameInfo option \<Rightarrow> join_panel" where
  "renderGameJoin isJoining info =
     \<lparr> jp_notPlayer2Notice = (case info of None \<Rightarrow> False | Some g \<Rightarrow> \<not> gi_isJ2 g),
       jp_alreadyPlayedNotice = (case info of None \<Rightarrow> False | Some g \<Rightarrow> gi_hasPlayed g),
       jp_joinDisabled =
         (isJoining \<or> (case info of None \<Rightarrow> True | Some g \<Rightarrow> gi_hasPlayed g \<or> \<not> gi_isJ2 g)) \<rparr>"

text \<open>
  A click on the Join button, the only caller of \<^verbatim>\<open>handleJoinGame\<close>: a disabled button
  does nothing (\<open>None\<close>), an enabled one runs the handler.
\<close>

definition clickJoin ::
  "(string \<Rightarrow> bool) \<Rightarrow> (string \<Rightarrow> int option) \<Rightarrow> string option
     \<Rightarrow> bool \<Rightarrow> string \<Rightarrow> gameInfo option \<Rightarrow> int \<Rightarrow> join_result option" where
  "clickJoin isAddress parseEther getSigner isJoining contractAddress info move =
     (if jp_joinDisabled (renderGameJoin isJoining info) then None
      else Some (handleJoinGame isAddress parseEther getSigner contractAddress info move))"

subsection \<open>GameReveal\<close>

text \<open>
  The object that \<^verbatim>\<open>JSON.parse\<close> gives for an uploaded secret file. The model covers
  the files whose \<^verbatim>\<open>move\<close> is a number and whose other fields are strings; each field
  may be absent (\<open>None\<close>). \<^verbatim>\<open>contractAddress\<close> is read by the upload although the
  download never writes it.
\<close>

record secretFile =
  sf_move :: "int option"
  sf_moveName :: "string option"
  sf_salt :: "string option"
  sf_commitment :: "string option"
  sf_createdAt :: "string option"
  sf_contractAddress :: "string option"

text \<open>
  \<^verbatim>\<open>JSON.parse(JSON.stringify(secretData, null, 2))\<close>: the file that the download writes,
  read back. Numbers and strings come back as they were; an \<open>undefined\<close> field is not
  written.
\<close>

definition writeSecretFile :: "secretData \<Rightarrow> secretFile" where
  "writeSecretFile d =
     \<lparr> sf_move = Some (sd_move d),
       sf_moveName = sd_moveName d,
       sf_salt = Some (sd_salt d),
       sf_commitment = Some (sd_commitment d),
       sf_createdAt = Some (sd_createdAt d),
       sf_contractAddress = None \<rparr>"

text \<open>The state of the \<^verbatim>\<open>GameReveal\<close> form: \<open>contractAddress\<close>, \<open>move\<close>, \<open>salt\<close>.\<close>

record reveal_form =
  rv_contractAddress :: string
  rv_move :: int
  rv_salt :: string

datatype upload_result =
    AlertInvalidSecretFile     \<comment> \<open>"Invalid secret file: ..."; the form is unchanged\<close>
  | SecretLoaded reveal_form   \<comment> \<open>"Secret loaded!"; the form after the upload\<close>

text \<open>
  \<^verbatim>\<open>handleUploadSecret\<close> on a chosen file: \<open>secret\<close> is the parsed file, \<open>None\<close> when the
  text is not JSON. A missing, zero or empty \<^verbatim>\<open>move\<close> or \<^verbatim>\<open>salt\<close> is falsy.
\<close>

definition handleUploadSecret :: "secretFile option \<Rightarrow> reveal_form \<Rightarrow> upload_result" where
  "handleUploadSecret secret form =
     (case secret of
        None \<Rightarrow> AlertInvalidSecretFile
      | Some f \<Rightarrow>
          (case (sf_move f, sf_salt f) of
             (Some m, Some s) \<Rightarrow>
               if m = 0 \<or> s = [] then AlertInvalidSecretFile
               else
                 let form1 = form\<lparr> rv_move := m, rv_salt := s \<rparr>
                 in (case sf_contractAddress f of
                       Some a \<Rightarrow>
                         if a \<noteq> [] then SecretLoaded (form1\<lparr> rv_contractAddress := a \<rparr>)
                         else SecretLoaded form1
                     | None \<Rightarrow> SecretLoaded form1)
           | _ \<Rightarrow> AlertInvalidSecretFile))"

datatype reveal_result =
    AlertRevealInvalidAddress  \<comment> \<open>"Please enter a valid contract address!"\<close>
  | AlertLoadSecretFirst       \<comment> \<open>"Please load your secret first!"\<close>
  | AlertInvalidMoveRange      \<comment> \<open>"Invalid move! Must be 1-5."\<close>
  | AlertRevealFailed          \<comment> \<open>the outer \<^verbatim>\<open>catch\<close> branch: "Reveal failed: ..."\<close>
  | AlertInvalidSaltFormat     \<comment> \<open>"Invalid salt format!"\<close>
  | AlertInvalidMoveValue      \<comment> \<open>"Invalid move value: ..."\<close>
  | AlertInvalidSaltValue      \<comment> \<open>"Invalid salt value"\<close>
  | Solve int nat              \<comment> \<open>\<^verbatim>\<open>contract.solve(Number(move), saltBigInt)\<close>\<close>

text \<open>
  \<^verbatim>\<open>handleReveal\<close> up to the call of \<^verbatim>\<open>solve\<close>; \<open>move\<close> is the contract code. The call
  prepares its transaction before anything is sent: the salt must fit \<^verbatim>\<open>uint256\<close> and
  the contract's address must be a hex string (another text is taken for a name to
  resolve, which fails for the texts that \<^verbatim>\<open>ethers.isAddress\<close> accepts); otherwise the
  library throws into the outer \<^verbatim>\<open>catch\<close> branch.
\<close>

definition handleReveal ::
  "(string \<Rightarrow> bool) \<Rightarrow> string option \<Rightarrow> string \<Rightarrow> int \<Rightarrow> string \<Rightarrow> reveal_result" where
  "handleReveal isAddress getSigner contractAddress move salt =
     (if contractAddress = [] \<or> \<not> isAddress contractAddress then AlertRevealInvalidAddress
      else if salt = [] then AlertLoadSecretFirst
      else if move < 1 \<or> move > 5 then AlertInvalidMoveRange
      else
        case getSigner of
          None \<Rightarrow> AlertRevealFailed
        | Some signerAddress \<Rightarrow>
            let saltClean = (if startsWith salt ''0x'' then drop 2 salt else salt)
            in (case BigInt_0x saltClean of
                  None \<Rightarrow> AlertInvalidSaltFormat
                | Some saltBigInt \<Rightarrow>
                    if move = 0 \<or> move < 1 \<or> move > 5 then AlertInvalidMoveValue
                    else if saltBigInt = 0 \<or> saltBigInt = 0 then AlertInvalidSaltValue
                    else if saltBigInt \<ge> 2 ^ 256 \<or> \<not> isHexString contractAddress
                      then AlertRevealFailed
                    else Solve move saltBigInt))"

subsection \<open>GameStatus\<close>

text \<open>The \<^verbatim>\<open>MOVES\<close> table of \<^verbatim>\<open>GameStatus\<close>, indexed by the contract's move code.\<close>

definition MOVES_status :: "string list" where
  "MOVES_status = [''Null'', ''Rock'', ''Paper'', ''Scissors'', ''Spock'', ''Lizard'']"

text \<open>
  The object \<^verbatim>\<open>state\<close> that \<^verbatim>\<open>loadGameState\<close> stores. The two strings made for display
  only (\<^verbatim>\<open>stake\<close>, the formatted amount, and \<^verbatim>\<open>lastActionDate\<close>) are left out.
\<close>

record game_state =
  gs_j1 :: string
  gs_j2 :: string
  gs_c1Hash :: string
  gs_c2 :: nat
  gs_c2Name :: string
  gs_stakeWei :: nat
  gs_lastAction :: int
  gs_timeout :: int
  gs_timeSinceLastAction :: int
  gs_isTimedOut :: bool
  gs_canTimeout :: bool
  gs_timeoutFunction :: "string option"
  gs_phase :: string
  gs_isJ1 :: bool
  gs_isJ2 :: bool
  gs_userAddress :: string

text \<open>
  The body of \<^verbatim>\<open>loadGameState\<close> once the getters and the signer are read;
  \<open>currentTime\<close> is \<^verbatim>\<open>Math.floor(Date.now() / 1000)\<close>.
\<close>

definition gameStateOf :: "contract_view \<Rightarrow> string \<Rightarrow> int \<Rightarrow> game_state" where
  "gameStateOf v signerAddress currentTime =
     (let c2Number = view_c2 v;
          stakeNumber = view_stake v;
          lastActionNumber = int (view_lastAction v);
          timeoutSeconds = int (view_TIMEOUT v);
          timeSinceLastAction = currentTime - lastActionNumber;
          isTimedOut = (timeSinceLastAction > timeoutSeconds);
          (phase, canTimeout, timeoutFunction) =
            (if stakeNumber = 0 then (''Game Completed (stake withdrawn)'', False, None)
             else if c2Number = 0 then
               (''Waiting for Player 2 to join'',
                if isTimedOut then (True, Some ''j2Timeout'') else (False, None))
             else
               (''Player 2 joined, waiting for Player 1 to reveal'',
                if isTimedOut then (True, Some ''j1Timeout'') else (False, None)))
      in \<lparr> gs_j1 = view_j1 v,
           gs_j2 = view_j2 v,
           gs_c1Hash = view_c1Hash v,
           gs_c2 = c2Number,
           gs_c2Name = (case array_get MOVES_status (int c2Number) of
                          Some n \<Rightarrow> n | None \<Rightarrow> ''Not played''),
           gs_stakeWei = stakeNumber,
           gs_lastAction = lastActionNumber,
           gs_timeout = timeoutSeconds,
           gs_timeSinceLastAction = timeSinceLastAction,
           gs_isTimedOut = isTimedOut,
           gs_canTimeout = canTimeout,
           gs_timeoutFunction = timeoutFunction,
           gs_phase = phase,
           gs_isJ1 = (toLowerCase signerAddress = toLowerCase (view_j1 v)),
           gs_isJ2 = (toLowerCase signerAddress = toLowerCase (view_j2 v)),
           gs_userAddress = signerAddress \<rparr>)"

text \<open>
  \<^verbatim>\<open>loadGameState\<close>: the new value of the component's \<open>gameState\<close>, given the old one.
  An invalid address leaves it as it was; a failed read sets it to \<open>null\<close>.
\<close>

definition loadGameState ::
  "(string \<Rightarrow> bool) \<Rightarrow> string \<Rightarrow> contract_view option \<Rightarrow> string option \<Rightarrow> int
     \<Rightarrow> game_state option \<Rightarrow> game_state option" where
  "loadGameState isAddress contractAddress contract getSigner currentTime gameState =
     (if contractAddress = [] \<or> \<not> isAddress contractAddress then gameState
      else
        case contract of
          None \<Rightarrow> None
        | Some v \<Rightarrow>
            (case getSigner of
               None \<Rightarrow> None
             | Some signerAddress \<Rightarrow> Some (gameStateOf v signerAddress currentTime)))"

datatype timeout_result =
    AlertCannotCallTimeout   \<comment> \<open>"Cannot call timeout!"\<close>
  | AlertOnlyPlayer2         \<comment> \<open>"Only Player 2 can call j1Timeout!"\<close>
  | AlertOnlyPlayer1         \<comment> \<open>"Only Player 1 can call j2Timeout!"\<close>
  | AlertTimeoutFailed       \<comment> \<open>the \<^verbatim>\<open>catch\<close> branch: "Timeout call failed: ..."\<close>
  | TimeoutCall string       \<comment> \<open>\<^verbatim>\<open>contract.j1Timeout(...)\<close> or \<^verbatim>\<open>contract.j2Timeout(...)\<close>\<close>

text \<open>
  \<^verbatim>\<open>callTimeout\<close> up to the contract call. With a \<open>timeoutFunction\<close> that is neither
  name no call is made and reading \<^verbatim>\<open>tx.hash\<close> throws into the \<^verbatim>\<open>catch\<close> branch.
\<close>

definition callTimeout :: "string option \<Rightarrow> game_state option \<Rightarrow> timeout_result" where
  "callTimeout getSigner gameState =
     (case gameState of
        None \<Rightarrow> AlertCannotCallTimeout
      | Some g \<Rightarrow>
          if \<not> gs_canTimeout g then AlertCannotCallTimeout
          else
            (case getSigner of
               None \<Rightarrow> AlertTimeoutFailed
             | Some signerAddress \<Rightarrow>
                 if gs_timeoutFunction g = Some ''j1Timeout'' then
                   (if \<not> gs_isJ2 g then AlertOnlyPlayer2 else TimeoutCall ''j1Timeout'')
                 else if gs_timeoutFunction g = Some ''j2Timeout'' then
                   (if \<not> gs_isJ1 g then AlertOnlyPlayer1 else TimeoutCall ''j2Timeout'')
                 else AlertTimeoutFailed))"

subsection \<open>Secrets as hexadecimal text\<close>

text \<open>
  A 256-bit secret as the client holds it: at most 64 hexadecimal digits, with or without
  the prefix \<open>0x\<close> (\<^verbatim>\<open>generateSalt\<close> gives \<open>0x\<close> and 64 digits), and the number it denotes.
\<close>

definition isSecretHex :: "string \<Rightarrow> bool" where
  "isSecretHex s =
     (let ds = (if startsWith s ''0x'' then drop 2 s else s)
      in length ds \<le> 64 \<and> list_all isHexDigit ds)"

definition secretValue :: "string \<Rightarrow> nat" where
  "secretValue s = hexValue (if startsWith s ''0x'' then drop 2 s else s)"

text \<open>Two secrets in the form \<^verbatim>\<open>generateSalt\<close> gives: the number 42 and the number 0.\<close>

definition salt42 :: string where
  "salt42 = ''0x'' @ replicate 62 CHR ''0'' @ ''2a''"

definition zeroSalt :: string where
  "zeroSalt = ''0x'' @ replicate 64 CHR ''0''"

subsection \<open>An example environment\<close>

text \<open>
  Concrete values for the examples below. \<open>exampleIsAddress\<close>, \<open>exampleParseEther\<close> and
  \<open>exampleFormatEther\<close> stand for \<^verbatim>\<open>ethers.isAddress\<close>, \<^verbatim>\<open>ethers.parseEther\<close> and
  \<^verbatim>\<open>ethers.formatEther\<close>; they agree with the library on the lower-case addresses and
  on the amounts that the examples use (0 and 0.0001 ether).
\<close>

definition exampleIsAddress :: "string \<Rightarrow> bool" where
  "exampleIsAddress a = (startsWith a ''0x'' \<and> length a = 42 \<and> list_all isHexDigit (drop 2 a))"

definition exampleParseEther :: "string \<Rightarrow> int option" where
  "exampleParseEther s =
     (if s = ''0'' \<or> s = ''0.0'' then Some 0
      else if s = ''0.0001'' then Some 100000000000000
      else None)"

text \<open>
  \<open>exampleKeccak256\<close> stands for \<^verbatim>\<open>ethers.keccak256\<close>: it agrees with the library on the
  one preimage that the examples hash, the encoding of the move Scissors (3) and the
  secret 42, and gives the text of a zero hash elsewhere.
\<close>

definition commitment342 :: string where
  "commitment342 = ''0x4adfa5efd78af8432c8ff812ed4c3d89e016f048361846e090e1a7c770f31576''"

definition exampleKeccak256 :: "byte list \<Rightarrow> string" where
  "exampleKeccak256 bytes =
     (if bytes = replicate 31 0 @ [3] @ replicate 31 0 @ [42] then commitment342
      else ''0x'' @ replicate 64 CHR ''0'')"

definition exampleFormatEther :: "nat \<Rightarrow> string option" where
  "exampleFormatEther w =
     (if w = 0 then Some ''0.0''
      else if w = 100000000000000 then Some ''0.0001''
      else None)"

definition alice :: string where
  "alice = ''0x'' @ replicate 40 CHR ''a''"

definition bob :: string where
  "bob = ''0x'' @ replicate 40 CHR ''b''"

definition carol :: string where
  "carol = ''0x'' @ replicate 40 CHR ''c''"

definition gameAddress :: string where
  "gameAddress = ''0x'' @ replicate 40 CHR ''d''"

text \<open>
  Three readings of a game between \<open>alice\<close> (first mover) and \<open>bob\<close> (second mover) with
  a timeout of 300 seconds and the last action at second 1000: before the second move,
  after the second move (Scissors, 3), and after settlement (stake 0).
\<close>

definition viewAwaitingSecondMove :: contract_view where
  "viewAwaitingSecondMove =
     \<lparr> view_j1 = alice, view_j2 = bob, view_c1Hash = ''0x01'', view_c2 = 0,
       view_stake = 100000000000000, view_lastAction = 1000, view_TIMEOUT = 300 \<rparr>"

definition viewAwaitingReveal :: contract_view where
  "viewAwaitingReveal = viewAwaitingSecondMove \<lparr> view_c2 := 3 \<rparr>"

definition viewSettled :: contract_view where
  "viewSettled = viewAwaitingReveal \<lparr> view_stake := 0 \<rparr>"



text \<open>Loading the state of the example game at \<open>gameAddress\<close> into an empty component.\<close>

definition exampleLoad :: "contract_view \<Rightarrow> string \<Rightarrow> int \<Rightarrow> game_state option" where
  "exampleLoad v caller now =
     loadGameState exampleIsAddress gameAddress (Some v) (Some caller) now None"

text \<open>
  An empty reveal form, and two exports of the same move (Scissors, UI index 2), the
  same secret and its commitment, made at two different times.
\<close>

definition emptyForm :: reveal_form where
  "emptyForm = \<lparr> rv_contractAddress = [], rv_move = 1, rv_salt = [] \<rparr>"

definition exportA :: secretData where
  "exportA = \<lparr> sd_move = 3, sd_moveName = Some ''Scissors'', sd_salt = salt42,
               sd_commitment = commitment342, sd_createdAt = ''2026-01-01T00:00:00.000Z'' \<rparr>"

definition exportB :: secretData where
  "exportB = \<lparr> sd_move = 3, sd_moveName = Some ''Scissors'', sd_salt = salt42,
               sd_commitment = commitment342, sd_createdAt = ''2027-02-02T00:00:00.000Z'' \<rparr>"

subsection \<open>The preimage as the protocol describes it\<close>

text \<open>
  The protocol's preimage, following the specification's words and the comment in
  \<^verbatim>\<open>createCommitment\<close> on the contract's packed \<^verbatim>\<open>keccak256(uint8, uint256)\<close>:
  one byte of move code followed by the 32-byte big-endian secret.
\<close>

definition packed_preimage :: "int \<Rightarrow> nat \<Rightarrow> byte list" where
  "packed_preimage moveCode secret = be_bytes 1 (nat moveCode) @ be_bytes 32 secret"

subsection \<open>Move rules\<close>

datatype Move = Null | Rock | Paper | Scissors | Spock | Lizard

datatype Outcome = FirstWins | SecondWins | Tie

text \<open>
  Modelled from the spec: the dominance relation and \<open>beats\<close> are decided by the settlement
  contract, whose source is not among the files of the client; the client only prints the
  rules (\<^verbatim>\<open>App\<close>, "Game Rules"). The table is the specification's, and agrees with the
  printed rules: Rock crushes Scissors and Lizard, Paper covers Rock and disproves Spock,
  Scissors cuts Paper and decapitates Lizard, Spock vaporizes Rock and smashes Scissors,
  Lizard eats Paper and poisons Spock.
\<close>

fun dominance_set :: "Move \<Rightarrow> Move list" where
  "dominance_set Rock = [Scissors, Lizard]"
| "dominance_set Paper = [Rock, Spock]"
| "dominance_set Scissors = [Paper, Lizard]"
| "dominance_set Spock = [Rock, Scissors]"
| "dominance_set Lizard = [Paper, Spock]"
| "dominance_set Null = []"

text \<open>Modelled from the spec: \<open>beats(a,b)\<close>: if \<open>a = b\<close> then Tie; else if \<open>b\<close> is in the
  dominance set of \<open>a\<close> then FirstWins; else SecondWins.\<close>

definition beats :: "Move \<Rightarrow> Move \<Rightarrow> Outcome" where
  "beats a b =
     (if a = b then Tie else if b \<in> set (dominance_set a) then FirstWins else SecondWins)"

section \<open>Properties\<close>

subsection \<open>Helper facts\<close>

lemma length_be_bytes: "length (be_bytes n v) = n"
  by (induction n arbitrary: v) simp_all

lemma be_bytes_zero: "be_bytes n 0 = replicate n 0"
  by (induction n) (simp_all add: replicate_append_same)

lemma be_bytes_small: "v < 256 \<Longrightarrow> be_bytes (Suc n) v = replicate n 0 @ [v]"
  by (simp add: be_bytes_zero)

lemma be_bytes_32_small: "v < 256 \<Longrightarrow> be_bytes 32 v = replicate 31 0 @ [v]"
  using be_bytes_small [of v 31] by (simp del: be_bytes.simps)

lemma hexDigit_not_space: "isHexDigit c \<Longrightarrow> \<not> isWhiteSpace c"
  by (auto simp: isHexDigit_def isWhiteSpace_def Let_def)

lemma hexDigitValue_less: "isHexDigit c \<Longrightarrow> hexDigitValue c < 16"
  by (auto simp: isHexDigit_def hexDigitValue_def Let_def)

lemma hexValue_snoc: "hexValue (ds @ [c]) = 16 * hexValue ds + hexDigitValue c"
  by (simp add: hexValue_def)

lemma hexValue_less: "list_all isHexDigit ds \<Longrightarrow> hexValue ds < 16 ^ length ds"
proof (induction ds rule: rev_induct)
  case Nil
  then show ?case by (simp add: hexValue_def)
next
  case (snoc c ds)
  then have "hexValue ds < 16 ^ length ds" and "hexDigitValue c < 16"
    by (simp_all add: hexDigitValue_less)
  then have "16 * hexValue ds + hexDigitValue c < 16 * 16 ^ length ds"
    by linarith
  then show ?case by (simp add: hexValue_snoc)
qed

lemma hexValue_zeros: "hexValue (replicate n CHR ''0'' @ ds) = hexValue ds"
proof -
  have z: "hexDigitValue CHR ''0'' = 0"
    by (simp add: hexDigitValue_def)
  have "foldl (\<lambda>acc c. 16 * acc + hexDigitValue c) 0 (replicate n CHR ''0'') = 0"
    by (induction n) (simp_all add: z)
  then show ?thesis by (simp add: hexValue_def)
qed

lemma trim_no_trailing_space:
  "t \<noteq> [] \<Longrightarrow> \<not> isWhiteSpace (last t) \<Longrightarrow> rev (dropWhile isWhiteSpace (rev t)) = t"
  by (cases t rule: rev_cases) simp_all

lemma BigInt_0x_hex:
  assumes "t \<noteq> []" and "list_all isHexDigit t"
  shows "BigInt_0x t = Some (hexValue t)"
proof -
  from assms have "isHexDigit (last t)"
    by (simp add: list_all_iff)
  then have "rev (dropWhile isWhiteSpace (rev t)) = t"
    using assms(1) by (simp add: trim_no_trailing_space hexDigit_not_space)
  with assms show ?thesis by (simp add: BigInt_0x_def)
qed

lemma sixteen_pow_64: "(16::nat) ^ 64 = 2 ^ 256"
proof -
  have "(16::nat) ^ 64 = (2 ^ 4) ^ 64" by simp
  also have "\<dots> = 2 ^ 256" by (simp only: power_mult [symmetric]) simp
  finally show ?thesis .
qed

lemma BigInt_0x_padStart:
  assumes "length ds \<le> 64" and "list_all isHexDigit ds"
  shows "BigInt_0x (padStart 64 CHR ''0'' ds) = Some (hexValue ds)"
    and "hexValue ds < 2 ^ 256"
proof -
  let ?t = "padStart 64 CHR ''0'' ds"
  have z: "isHexDigit CHR ''0''" by (simp add: isHexDigit_def)
  have len: "length ?t = 64" using assms(1) by (simp add: padStart_def)
  then have ne: "?t \<noteq> []" by auto
  have hex: "list_all isHexDigit ?t"
    using assms(2) z by (auto simp: padStart_def list_all_iff)
  have val: "hexValue ?t = hexValue ds" by (simp add: padStart_def hexValue_zeros)
  show "BigInt_0x ?t = Some (hexValue ds)"
    using BigInt_0x_hex [OF ne hex] val by simp
  have "hexValue ds < 16 ^ length ds" using assms(2) by (rule hexValue_less)
  also have "\<dots> \<le> (16::nat) ^ 64" using assms(1) by (intro power_increasing) simp_all
  finally show "hexValue ds < 2 ^ 256" by (simp only: sixteen_pow_64)
qed

lemma drop_prefix_salt:
  "drop 2 (if \<not> startsWith saltHex ''0x'' then ''0x'' @ saltHex else saltHex)
   = (if startsWith saltHex ''0x'' then drop 2 saltHex else saltHex)"
  by simp

text \<open>
  What \<open>createCommitment\<close> hashes for a move code in \<open>1..5\<close> and a well-formed secret:
  the two 32-byte words of the standard ABI encoding, 64 bytes.
\<close>

lemma createCommitment_encoded:
  assumes "1 \<le> moveIndex" and "moveIndex \<le> 5" and "isSecretHex saltHex"
  shows "createCommitment keccak256 moveIndex saltHex
         = Inr (keccak256 (be_bytes 32 (nat moveIndex) @ be_bytes 32 (secretValue saltHex)))"
proof -
  let ?ds = "if startsWith saltHex ''0x'' then drop 2 saltHex else saltHex"
  from assms(3) have ds: "length ?ds \<le> 64" "list_all isHexDigit ?ds"
    by (simp_all add: isSecretHex_def Let_def)
  note p = BigInt_0x_padStart [OF ds]
  show ?thesis
    using assms(1,2) p
    by (simp add: createCommitment_def Let_def drop_prefix_salt secretValue_def
        abi_encode_uint8_uint256_def del: be_bytes.simps)
qed

lemma salt42_secret: "isSecretHex salt42" "secretValue salt42 = 42"
  by (simp_all add: salt42_def isSecretHex_def secretValue_def startsWith_def list_all_iff
      isHexDigit_def hexValue_zeros, simp add: hexValue_def hexDigitValue_def)

lemma zero_salt_parses: "BigInt_0x (replicate 64 CHR ''0'') = Some 0"
proof -
  have "list_all isHexDigit (replicate 64 CHR ''0'')"
    by (simp add: list_all_iff isHexDigit_def)
  then have "BigInt_0x (replicate 64 CHR ''0'') = Some (hexValue (replicate 64 CHR ''0'' @ []))"
    by (subst BigInt_0x_hex) simp_all
  then show ?thesis by (simp only: hexValue_zeros) (simp add: hexValue_def)
qed

lemma handleReveal_Solve_iff:
  "handleReveal isAddress getSigner contractAddress move salt = Solve m s \<longleftrightarrow>
     contractAddress \<noteq> [] \<and> isAddress contractAddress \<and> salt \<noteq> [] \<and> 1 \<le> move \<and> move \<le> 5
     \<and> getSigner \<noteq> None \<and> m = move
     \<and> BigInt_0x (if startsWith salt ''0x'' then drop 2 salt else salt) = Some s \<and> s \<noteq> 0
     \<and> s < 2 ^ 256 \<and> isHexString contractAddress"
  by (auto simp: handleReveal_def Let_def split: option.splits)

text \<open>The example environment.\<close>

lemma example_addresses:
  "exampleIsAddress alice" "exampleIsAddress bob" "exampleIsAddress carol"
  "exampleIsAddress gameAddress"
  "alice \<noteq> []" "bob \<noteq> []" "carol \<noteq> []" "gameAddress \<noteq> []"
  by (simp_all add: exampleIsAddress_def alice_def bob_def carol_def gameAddress_def
      startsWith_def list_all_iff isHexDigit_def)

lemma lowerChar_lower:
  "lowerChar CHR ''a'' = CHR ''a''" "lowerChar CHR ''b'' = CHR ''b''"
  "lowerChar CHR ''c'' = CHR ''c''" "lowerChar CHR ''0'' = CHR ''0''"
  "lowerChar CHR ''x'' = CHR ''x''"
  by (simp_all add: lowerChar_def)

lemma example_lower:
  "toLowerCase alice = alice" "toLowerCase bob = bob" "toLowerCase carol = carol"
  by (simp_all add: toLowerCase_def alice_def bob_def carol_def lowerChar_lower)

lemma example_distinct:
  "alice \<noteq> bob" "bob \<noteq> alice" "alice \<noteq> carol" "carol \<noteq> alice" "bob \<noteq> carol" "carol \<noteq> bob"
  by (simp_all add: alice_def bob_def carol_def eval_nat_numeral)

lemma salt42_nonempty: "salt42 \<noteq> []"
  by (simp add: salt42_def)

text \<open>When each handler reaches its contract call.\<close>

lemma handleJoinGame_Play_iff:
  "handleJoinGame isAddress parseEther getSigner contractAddress info move = Play m w \<longleftrightarrow>
     contractAddress \<noteq> [] \<and> isAddress contractAddress
     \<and> (\<exists>g. info = Some g \<and> \<not> gi_hasPlayed g \<and> gi_isJ2 g \<and> parseEther (gi_stake g) = Some w)
     \<and> getSigner \<noteq> None \<and> m = uiMoveToContract move
     \<and> isHexString contractAddress \<and> 0 \<le> m \<and> m \<le> 255 \<and> 0 \<le> w"
  by (auto simp: handleJoinGame_def parseEth_def Let_def split: option.splits)


text \<open>The fields of the game state that decide the timeout.\<close>

lemma gameStateOf_fields:
  "gs_canTimeout (gameStateOf v caller now)
     = (view_stake v \<noteq> 0 \<and> now - int (view_lastAction v) > int (view_TIMEOUT v))"
  "gs_isTimedOut (gameStateOf v caller now)
     = (now - int (view_lastAction v) > int (view_TIMEOUT v))"
  "gs_timeoutFunction (gameStateOf v caller now)
     = (if view_stake v = 0 \<or> \<not> now - int (view_lastAction v) > int (view_TIMEOUT v) then None
        else if view_c2 v = 0 then Some ''j2Timeout'' else Some ''j1Timeout'')"
  "gs_isJ1 (gameStateOf v caller now) = (toLowerCase caller = toLowerCase (view_j1 v))"
  "gs_isJ2 (gameStateOf v caller now) = (toLowerCase caller = toLowerCase (view_j2 v))"
  "gs_phase (gameStateOf v caller now)
     = (if view_stake v = 0 then ''Game Completed (stake withdrawn)''
        else if view_c2 v = 0 then ''Waiting for Player 2 to join''
        else ''Player 2 joined, waiting for Player 1 to reveal'')"
  by (simp_all add: gameStateOf_def Let_def)

lemma loadGameState_read:
  "contractAddress \<noteq> [] \<Longrightarrow> isAddress contractAddress \<Longrightarrow>
   loadGameState isAddress contractAddress (Some v) (Some caller) now old
     = Some (gameStateOf v caller now)"
  by (simp add: loadGameState_def)

lemma exampleLoad_read: "exampleLoad v caller now = Some (gameStateOf v caller now)"
  by (simp add: exampleLoad_def loadGameState_read example_addresses)

subsection \<open>Dominance\<close>

text \<open>
  C3. \<open>beats a a\<close> is a tie for every non-Null move; for two distinct non-Null moves
  exactly one direction is a win of the first; and the winning direction is the table's:
  Rock beats Scissors and Lizard, Paper beats Rock and Spock, Scissors beats Paper and
  Lizard, Spock beats Rock and Scissors, Lizard beats Paper and Spock.
\<close>

theorem beats_total_and_consistent:
  assumes "a \<noteq> Null" and "b \<noteq> Null"
  shows "beats a a = Tie
    \<and> (a \<noteq> b \<longrightarrow> (beats a b = FirstWins) \<noteq> (beats b a = FirstWins))
    \<and> (beats a b = FirstWins \<longleftrightarrow>
           (a, b) \<in> {(Rock, Scissors), (Rock, Lizard), (Paper, Rock), (Paper, Spock),
                     (Scissors, Paper), (Scissors, Lizard), (Spock, Rock), (Spock, Scissors),
                     (Lizard, Paper), (Lizard, Spock)})"
  using assms by (cases a; cases b; simp add: beats_def)

theorem beats_total_and_consistent_witness:
  "Rock \<noteq> Null \<and> Scissors \<noteq> Null \<and> Rock \<noteq> Scissors
   \<and> beats Rock Rock = Tie
   \<and> beats Rock Scissors = FirstWins \<and> beats Scissors Rock \<noteq> FirstWins"
  using beats_total_and_consistent [of Rock Scissors] by (simp add: beats_def)

subsection \<open>Commitments\<close>

text \<open>
  C5. \<open>createCommitment\<close> fails with the invalid-move error for every move code that is
  0 (Null) or otherwise outside \<open>1..5\<close>, whatever the secret, and produces no commitment
  then; for every move code in \<open>1..5\<close> and every well-formed 256-bit secret it returns a
  commitment.
\<close>

theorem createCommitment_move_range:
  "(moveIndex < 1 \<or> moveIndex > 5
      \<longrightarrow> createCommitment keccak256 moveIndex saltHex = Inl InvalidMove)
   \<and> (1 \<le> moveIndex \<and> moveIndex \<le> 5 \<and> isSecretHex saltHex
      \<longrightarrow> (\<exists>c. createCommitment keccak256 moveIndex saltHex = Inr c))"
proof (intro conjI impI)
  assume "moveIndex < 1 \<or> moveIndex > 5"
  then show "createCommitment keccak256 moveIndex saltHex = Inl InvalidMove"
    by (simp add: createCommitment_def)
next
  assume "1 \<le> moveIndex \<and> moveIndex \<le> 5 \<and> isSecretHex saltHex"
  then show "\<exists>c. createCommitment keccak256 moveIndex saltHex = Inr c"
    by (simp add: createCommitment_encoded)
qed

theorem createCommitment_move_range_witness:
  "createCommitment length 0 salt42 = Inl InvalidMove
   \<and> createCommitment length 6 salt42 = Inl InvalidMove
   \<and> isSecretHex salt42
   \<and> (\<exists>c. createCommitment length 3 salt42 = Inr c)"
  using createCommitment_move_range [of 0 length salt42]
        createCommitment_move_range [of 6 length salt42]
        createCommitment_move_range [of 3 length salt42]
        salt42_secret(1)
  by simp

text \<open>
  C1. The claim is that the commitment is the hash of the 33-byte packed preimage (one
  byte of move code, 32 bytes of secret). At the move Rock (1) and the secret 42 the
  function hashes the 64 bytes of the standard ABI encoding instead: 31 zero bytes and
  the move code, then the 32-byte secret. The packed preimage of the same pair has 33
  bytes, so a hash that tells the two byte strings apart (here the identity) gives a
  commitment other than the one claimed.
\<close>

theorem createCommitment_hashes_64_bytes:
  "createCommitment keccak256 1 salt42
     = Inr (keccak256 (replicate 31 0 @ [1] @ replicate 31 0 @ [42]))
   \<and> packed_preimage 1 42 = [1] @ replicate 31 0 @ [42]
   \<and> length (replicate 31 0 @ [1] @ replicate 31 0 @ [42 :: nat]) = 64
   \<and> length (packed_preimage 1 42) = 33
   \<and> createCommitment (\<lambda>bytes. bytes) 1 salt42 \<noteq> Inr (packed_preimage 1 42)"
proof -
  have enc: "createCommitment h 1 salt42
     = Inr (h (replicate 31 0 @ [1] @ replicate 31 0 @ [42]))" for h :: "byte list \<Rightarrow> 'x"
    using createCommitment_encoded [of 1 salt42 h]
    by (simp add: salt42_secret be_bytes_32_small del: be_bytes.simps)
  have packed: "packed_preimage 1 42 = [1] @ replicate 31 0 @ [42]"
    by (simp add: packed_preimage_def be_bytes_32_small del: be_bytes.simps) simp
  have "length (packed_preimage 1 42) = 33"
    by (simp add: packed)
  moreover have "createCommitment (\<lambda>bytes. bytes) 1 salt42 \<noteq> Inr (packed_preimage 1 42)"
    by (simp add: enc packed)
  ultimately show ?thesis
    using enc [of keccak256] packed by simp
qed

subsection \<open>Reveal\<close>

text \<open>
  C9. A salt that parses to the integer 0 never reaches the contract: whatever the other
  inputs are, \<open>handleReveal\<close> does not call \<open>solve\<close>; when every other check passes it
  stops at the alert "Invalid salt value".
\<close>

theorem handleReveal_rejects_zero_secret:
  assumes "BigInt_0x (if startsWith salt ''0x'' then drop 2 salt else salt) = Some 0"
  shows "handleReveal isAddress getSigner contractAddress move salt \<noteq> Solve m s
    \<and> (contractAddress \<noteq> [] \<and> isAddress contractAddress \<and> 1 \<le> move \<and> move \<le> 5
          \<and> getSigner \<noteq> None
        \<longrightarrow> handleReveal isAddress getSigner contractAddress move salt = AlertInvalidSaltValue)"
proof -
  from assms have ne: "salt \<noteq> []"
    by (auto simp: BigInt_0x_def startsWith_def)
  have "handleReveal isAddress getSigner contractAddress move salt \<noteq> Solve m s"
    using assms by (auto simp: handleReveal_Solve_iff)
  moreover have "handleReveal isAddress getSigner contractAddress move salt = AlertInvalidSaltValue"
    if "contractAddress \<noteq> []" "isAddress contractAddress" "1 \<le> move" "move \<le> 5"
      "getSigner \<noteq> None"
    using that ne by (cases getSigner) (simp_all add: handleReveal_def Let_def assms)
  ultimately show ?thesis by blast
qed

text \<open>
  The all-zero secret is one that \<open>createCommitment\<close> accepts, for a valid address, a move
  in range and a connected wallet; \<open>handleReveal\<close> stops it.
\<close>

theorem handleReveal_rejects_zero_secret_witness:
  "BigInt_0x (if startsWith zeroSalt ''0x'' then drop 2 zeroSalt else zeroSalt) = Some 0
   \<and> isSecretHex zeroSalt
   \<and> createCommitment length 1 zeroSalt = Inr 64
   \<and> handleReveal exampleIsAddress (Some alice) gameAddress 1 zeroSalt = AlertInvalidSaltValue"
proof -
  have h: "BigInt_0x (if startsWith zeroSalt ''0x'' then drop 2 zeroSalt else zeroSalt) = Some 0"
    by (simp add: zeroSalt_def startsWith_def zero_salt_parses)
  have z: "isSecretHex zeroSalt"
    by (simp add: isSecretHex_def zeroSalt_def startsWith_def list_all_iff isHexDigit_def)
  have c: "createCommitment length 1 zeroSalt = Inr 64"
    using createCommitment_encoded [of 1 zeroSalt length] z by (simp add: length_be_bytes)
  from handleReveal_rejects_zero_secret
         [OF h, of exampleIsAddress "Some alice" gameAddress 1 1 1] h z c
  show ?thesis by (simp add: example_addresses)
qed

subsection \<open>Timeouts\<close>

text \<open>
  C2, as amended. The timeout claim that \<open>callTimeout\<close> issues while the second mover has
  played and the first mover has not revealed is the operation named \<open>j1Timeout\<close>, and it
  is issued only when the caller is the second mover; the one it issues while the second
  mover has not played is named \<open>j2Timeout\<close>, and it is issued only when the caller is the
  first mover. Both need a stake that is not withdrawn and an elapsed timeout, and no
  other operation is ever issued.
\<close>

theorem callTimeout_function_names:
  assumes "contractAddress \<noteq> []" and "isAddress contractAddress"
    and "loadGameState isAddress contractAddress (Some v) (Some caller) now old = gameState"
  shows "(callTimeout getSigner gameState = TimeoutCall ''j1Timeout'' \<longleftrightarrow>
      getSigner \<noteq> None \<and> view_stake v \<noteq> 0 \<and> view_c2 v \<noteq> 0
      \<and> now - int (view_lastAction v) > int (view_TIMEOUT v)
      \<and> toLowerCase caller = toLowerCase (view_j2 v))
   \<and> (callTimeout getSigner gameState = TimeoutCall ''j2Timeout'' \<longleftrightarrow>
      getSigner \<noteq> None \<and> view_stake v \<noteq> 0 \<and> view_c2 v = 0
      \<and> now - int (view_lastAction v) > int (view_TIMEOUT v)
      \<and> toLowerCase caller = toLowerCase (view_j1 v))
   \<and> (callTimeout getSigner gameState = TimeoutCall f
        \<longrightarrow> f = ''j1Timeout'' \<or> f = ''j2Timeout'')"
proof -
  have g: "gameState = Some (gameStateOf v caller now)"
    using assms by (simp add: loadGameState_read)
  show ?thesis
    unfolding g by (cases getSigner) (auto simp: callTimeout_def gameStateOf_fields)
qed

theorem callTimeout_function_names_witness:
  "gameAddress \<noteq> [] \<and> exampleIsAddress gameAddress
   \<and> callTimeout (Some bob) (exampleLoad viewAwaitingReveal bob 1301) = TimeoutCall ''j1Timeout''
   \<and> callTimeout (Some alice) (exampleLoad viewAwaitingSecondMove alice 1301)
       = TimeoutCall ''j2Timeout''
   \<and> callTimeout (Some alice) (exampleLoad viewAwaitingReveal alice 1301)
       \<noteq> TimeoutCall ''j1Timeout''
   \<and> callTimeout (Some alice) (exampleLoad viewAwaitingReveal alice 1301)
       \<noteq> TimeoutCall ''j2Timeout''"
  using callTimeout_function_names
          [OF example_addresses(8) example_addresses(4) exampleLoad_def [symmetric],
           where v = viewAwaitingReveal and caller = bob and now = 1301
             and getSigner = "Some bob" and f = "''j1Timeout''"]
        callTimeout_function_names
          [OF example_addresses(8) example_addresses(4) exampleLoad_def [symmetric],
           where v = viewAwaitingSecondMove and caller = alice and now = 1301
             and getSigner = "Some alice" and f = "''j2Timeout''"]
        callTimeout_function_names
          [OF example_addresses(8) example_addresses(4) exampleLoad_def [symmetric],
           where v = viewAwaitingReveal and caller = alice and now = 1301
             and getSigner = "Some alice" and f = "''j1Timeout''"]
  by (simp add: viewAwaitingReveal_def viewAwaitingSecondMove_def example_lower example_distinct
      example_addresses)

text \<open>
  C2, as stated, fails: in the phase where the first mover's reveal is awaited the
  operation offered to the second mover is \<open>j1Timeout\<close>, not \<open>j2Timeout\<close>; and
  \<open>j2Timeout\<close> is issued, for the first mover, in the phase where the second move is
  awaited.
\<close>

theorem callTimeout_names_counterexample:
  "map_option gs_phase (exampleLoad viewAwaitingReveal bob 1301)
     = Some ''Player 2 joined, waiting for Player 1 to reveal''
   \<and> map_option gs_timeoutFunction (exampleLoad viewAwaitingReveal bob 1301)
     = Some (Some ''j1Timeout'')
   \<and> callTimeout (Some bob) (exampleLoad viewAwaitingReveal bob 1301)
       \<noteq> TimeoutCall ''j2Timeout''
   \<and> map_option gs_phase (exampleLoad viewAwaitingSecondMove alice 1301)
     = Some ''Waiting for Player 2 to join''
   \<and> callTimeout (Some alice) (exampleLoad viewAwaitingSecondMove alice 1301)
       = TimeoutCall ''j2Timeout''"
  by (simp add: exampleLoad_read callTimeout_def gameStateOf_fields viewAwaitingReveal_def
      viewAwaitingSecondMove_def example_lower example_distinct)

text \<open>
  C4, as amended. For every game state whose stake is not withdrawn, a timeout claim is
  offered if and only if \<open>now - lastAction\<close> is strictly greater than the timeout
  interval; once the stake is withdrawn none is offered. At or before
  \<open>lastAction + timeout\<close> no timeout is available in any state, and \<open>callTimeout\<close>
  refuses.
\<close>

theorem canTimeout_iff:
  assumes "contractAddress \<noteq> []" and "isAddress contractAddress"
    and "loadGameState isAddress contractAddress (Some v) (Some caller) now old = Some g"
  shows "(gs_canTimeout g \<longleftrightarrow>
      view_stake v \<noteq> 0 \<and> now - int (view_lastAction v) > int (view_TIMEOUT v))
   \<and> (now \<le> int (view_lastAction v) + int (view_TIMEOUT v)
        \<longrightarrow> \<not> gs_canTimeout g \<and> callTimeout getSigner (Some g) = AlertCannotCallTimeout)"
proof -
  have g: "g = gameStateOf v caller now"
    using assms by (simp add: loadGameState_read)
  show ?thesis
    unfolding g by (auto simp: gameStateOf_fields callTimeout_def)
qed

theorem canTimeout_iff_witness:
  "gameAddress \<noteq> [] \<and> exampleIsAddress gameAddress
   \<and> exampleLoad viewAwaitingReveal bob 1301 = Some (gameStateOf viewAwaitingReveal bob 1301)
   \<and> gs_canTimeout (gameStateOf viewAwaitingReveal bob 1301)
   \<and> exampleLoad viewAwaitingReveal bob 1300 = Some (gameStateOf viewAwaitingReveal bob 1300)
   \<and> (1300::int) \<le> int (view_lastAction viewAwaitingReveal) + int (view_TIMEOUT viewAwaitingReveal)
   \<and> \<not> gs_canTimeout (gameStateOf viewAwaitingReveal bob 1300)
   \<and> callTimeout (Some bob) (exampleLoad viewAwaitingReveal bob 1300) = AlertCannotCallTimeout"
proof -
  note l = exampleLoad_read [unfolded exampleLoad_def]
  from canTimeout_iff [OF example_addresses(8) example_addresses(4) l,
         where v = viewAwaitingReveal and caller = bob and now = 1301
           and getSigner = "Some bob"]
       canTimeout_iff [OF example_addresses(8) example_addresses(4) l,
         where v = viewAwaitingReveal and caller = bob and now = 1300
           and getSigner = "Some bob"]
  show ?thesis
    by (simp add: exampleLoad_read example_addresses viewAwaitingReveal_def
        viewAwaitingSecondMove_def)
qed

text \<open>
  C4, as stated, fails: in a settled game (stake 0) the interval has elapsed and no
  timeout claim is offered.
\<close>

theorem canTimeout_settled_counterexample:
  "exampleLoad viewSettled bob 1301 = Some (gameStateOf viewSettled bob 1301)
   \<and> 1301 - gs_lastAction (gameStateOf viewSettled bob 1301)
       > gs_timeout (gameStateOf viewSettled bob 1301)
   \<and> \<not> gs_canTimeout (gameStateOf viewSettled bob 1301)"
  by (simp add: exampleLoad_read gameStateOf_def Let_def viewSettled_def viewAwaitingReveal_def
      viewAwaitingSecondMove_def)

subsection \<open>Move encodings\<close>

text \<open>Rounding to a Number.\<close>

lemma roundToNumber_exact: "\<bar>n\<bar> \<le> 2 ^ 53 \<Longrightarrow> roundToNumber n = n"
  by (simp only: roundToNumber_def if_True)

lemma uiMoveToContract_exact: "\<bar>x\<bar> < 2 ^ 53 \<Longrightarrow> uiMoveToContract x = x + 1"
proof -
  assume "\<bar>x\<bar> < 2 ^ 53"
  then have "\<bar>x + 1\<bar> \<le> 2 ^ 53" by linarith
  then show ?thesis by (simp only: uiMoveToContract_def roundToNumber_exact)
qed

lemma contractMoveToUI_exact: "\<bar>x\<bar> < 2 ^ 53 \<Longrightarrow> contractMoveToUI x = x - 1"
proof -
  assume "\<bar>x\<bar> < 2 ^ 53"
  then have "\<bar>x - 1\<bar> \<le> 2 ^ 53" by linarith
  then show ?thesis by (simp only: contractMoveToUI_def roundToNumber_exact)
qed

lemma small_move: "0 \<le> x \<Longrightarrow> x \<le> 5 \<Longrightarrow> \<bar>x :: int\<bar> < 2 ^ 53"
proof -
  assume "0 \<le> x" "x \<le> 5"
  moreover have "(5::int) < 2 ^ 53" by simp
  ultimately show ?thesis by linarith
qed

lemma uiMoveToContract_move: "0 \<le> x \<Longrightarrow> x \<le> 4 \<Longrightarrow> uiMoveToContract x = x + 1"
  by (rule uiMoveToContract_exact, rule small_move) simp_all

lemma bitLength_eq: "2 ^ k \<le> n \<Longrightarrow> n < 2 ^ Suc k \<Longrightarrow> bitLength n = Suc k"
proof (induction k arbitrary: n)
  case 0
  then have "n = 1" by simp
  then show ?case by (simp add: bitLength.simps)
next
  case (Suc k)
  from Suc.prems have "n \<noteq> 0" by auto
  moreover from Suc.prems have "2 ^ k \<le> n div 2" and "n div 2 < 2 ^ Suc k"
    by simp_all
  ultimately show ?case
    using Suc.IH [of "n div 2"] by (subst bitLength.simps) simp
qed

lemma roundToNumber_above_2_53: "roundToNumber 9007199254740993 = 9007199254740992"
proof -
  have "bitLength 9007199254740993 = 54"
    using bitLength_eq [of 53 9007199254740993] by simp
  then show ?thesis by (simp add: roundToNumber_def Let_def)
qed

text \<open>
  C10, as amended. For every integer \<open>x\<close> with \<open>|x| < 2^53\<close> the two move-encoding
  conversions are mutually inverse, and \<open>uiMoveToContract\<close> maps the UI indices \<open>0..4\<close>
  one-to-one onto the contract codes \<open>1..5\<close>.
\<close>

theorem move_conversions_inverse:
  assumes "\<bar>x\<bar> < 2 ^ 53"
  shows "contractMoveToUI (uiMoveToContract x) = x
   \<and> uiMoveToContract (contractMoveToUI x) = x
   \<and> bij_betw uiMoveToContract {0..4} {1..5}
   \<and> bij_betw contractMoveToUI {1..5} {0..4}"
proof -
  have "\<bar>x + 1\<bar> \<le> 2 ^ 53" and "\<bar>x - 1\<bar> \<le> 2 ^ 53"
    using assms by linarith+
  then have a: "contractMoveToUI (uiMoveToContract x) = x"
    and b: "uiMoveToContract (contractMoveToUI x) = x"
    using assms
    by (simp_all only: uiMoveToContract_def contractMoveToUI_def roundToNumber_exact)
  have up: "uiMoveToContract y = y + 1" and down: "contractMoveToUI y = y - 1"
    if "0 \<le> y" "y \<le> 5" for y
    using small_move [OF that] by (simp_all only: uiMoveToContract_exact contractMoveToUI_exact)
  have c: "bij_betw uiMoveToContract {0..4} {1..5}"
    by (rule bij_betw_byWitness [where f' = contractMoveToUI]) (auto simp: up down)
  have d: "bij_betw contractMoveToUI {1..5} {0..4}"
    by (rule bij_betw_byWitness [where f' = uiMoveToContract]) (auto simp: up down)
  from a b c d show ?thesis by blast
qed

theorem move_conversions_inverse_witness:
  "\<bar>3 :: int\<bar> < 2 ^ 53
   \<and> contractMoveToUI (uiMoveToContract 3) = 3 \<and> uiMoveToContract (contractMoveToUI 3) = 3"
  using move_conversions_inverse [of 3] by simp

text \<open>
  C10, as stated, fails: at the integer \<open>2^53 = 9007199254740992\<close> the sum
  \<open>2^53 + 1\<close> is not a Number and rounds to \<open>2^53\<close>, so converting to a contract code
  and back gives \<open>2^53 - 1\<close>.
\<close>

theorem move_conversions_counterexample:
  "uiMoveToContract 9007199254740992 = 9007199254740992
   \<and> contractMoveToUI (uiMoveToContract 9007199254740992) = 9007199254740991
   \<and> contractMoveToUI (uiMoveToContract 9007199254740992) \<noteq> 9007199254740992"
proof -
  have up: "uiMoveToContract 9007199254740992 = 9007199254740992"
    by (simp add: uiMoveToContract_def roundToNumber_above_2_53)
  have "contractMoveToUI 9007199254740992 = 9007199254740991"
    by (simp add: contractMoveToUI_def roundToNumber_def)
  with up show ?thesis by simp
qed

subsection \<open>Creating a game\<close>

lemma example_hex_addresses:
  "isHexAddress alice" "isHexAddress bob" "isHexAddress carol" "isHexAddress gameAddress"
  "isHexString gameAddress"
  by (simp_all add: isHexAddress_def isHexString_def alice_def bob_def carol_def gameAddress_def
      startsWith_def list_all_iff isHexDigit_def)

lemma commitment342_shape: "isBytes32Hex commitment342" "commitment342 \<noteq> []"
  by (simp_all add: isBytes32Hex_def isHexString_def commitment342_def startsWith_def
      isHexDigit_def)






subsection \<open>Joining a game\<close>

lemma loadGameInfo_read:
  "contractAddress \<noteq> [] \<Longrightarrow> isAddress contractAddress \<Longrightarrow>
   loadGameInfo isAddress formatEther contractAddress (Some v) (Some caller)
     = Some \<lparr> gi_j1 = view_j1 v, gi_j2 = view_j2 v,
              gi_stake = formatEth formatEther (view_stake v), gi_c2 = view_c2 v,
              gi_hasPlayed = (view_c2 v \<noteq> 0), gi_lastAction = int (view_lastAction v),
              gi_isJ2 = (toLowerCase caller = toLowerCase (view_j2 v)) \<rparr>"
  by (simp add: loadGameInfo_def)

text \<open>
  C7. For a game whose information is loaded, a join by a caller who is not the
  designated second mover is rejected with the notice that the caller is not player 2,
  and a join on a game whose second move is already set is rejected with the notice that
  player 2 has already played: in both cases the Join button is disabled, a click issues
  nothing (so the escrow is left as it was), and the handler itself would not call
  \<open>play\<close>. A click calls \<open>play\<close> only when the caller is the second mover and the second
  move is not yet set.
\<close>

theorem join_rejections:
  assumes "contractAddress \<noteq> []" and "isAddress contractAddress"
    and "loadGameInfo isAddress formatEther contractAddress (Some v) (Some caller) = info"
  shows "(toLowerCase caller \<noteq> toLowerCase (view_j2 v) \<longrightarrow>
            jp_notPlayer2Notice (renderGameJoin isJoining info)
            \<and> clickJoin isAddress parseEther getSigner isJoining contractAddress info move = None
            \<and> handleJoinGame isAddress parseEther getSigner contractAddress info move \<noteq> Play m w)
     \<and> (view_c2 v \<noteq> 0 \<longrightarrow>
            jp_alreadyPlayedNotice (renderGameJoin isJoining info)
            \<and> clickJoin isAddress parseEther getSigner isJoining contractAddress info move = None
            \<and> handleJoinGame isAddress parseEther getSigner contractAddress info move \<noteq> Play m w)
     \<and> (clickJoin isAddress parseEther getSigner isJoining contractAddress info move
            = Some (Play m w)
          \<longrightarrow> toLowerCase caller = toLowerCase (view_j2 v) \<and> view_c2 v = 0)"
proof -
  have info: "info = Some \<lparr> gi_j1 = view_j1 v, gi_j2 = view_j2 v,
              gi_stake = formatEth formatEther (view_stake v), gi_c2 = view_c2 v,
              gi_hasPlayed = (view_c2 v \<noteq> 0), gi_lastAction = int (view_lastAction v),
              gi_isJ2 = (toLowerCase caller = toLowerCase (view_j2 v)) \<rparr>"
    using assms by (simp add: loadGameInfo_read)
  show ?thesis
    unfolding info
    by (auto simp: clickJoin_def renderGameJoin_def handleJoinGame_Play_iff)
qed

lemma example_join:
  "clickJoin exampleIsAddress exampleParseEther (Some bob) False gameAddress
     (loadGameInfo exampleIsAddress exampleFormatEther gameAddress (Some viewAwaitingSecondMove)
        (Some bob)) 0
   = Some (Play 1 100000000000000)"
proof -
  have u: "uiMoveToContract 0 = 1"
    using uiMoveToContract_move [of 0] by simp
  show ?thesis
    by (simp add: clickJoin_def renderGameJoin_def loadGameInfo_read example_addresses
        example_hex_addresses example_lower viewAwaitingSecondMove_def)
       (simp add: handleJoinGame_def parseEth_def formatEth_def exampleFormatEther_def
        exampleParseEther_def example_addresses example_hex_addresses u)
qed

theorem join_rejections_witness:
  "gameAddress \<noteq> [] \<and> exampleIsAddress gameAddress
   \<and> toLowerCase carol \<noteq> toLowerCase (view_j2 viewAwaitingSecondMove)
   \<and> jp_notPlayer2Notice (renderGameJoin False
        (loadGameInfo exampleIsAddress exampleFormatEther gameAddress
           (Some viewAwaitingSecondMove) (Some carol)))
   \<and> clickJoin exampleIsAddress exampleParseEther (Some carol) False gameAddress
        (loadGameInfo exampleIsAddress exampleFormatEther gameAddress
           (Some viewAwaitingSecondMove) (Some carol)) 0
      = None
   \<and> view_c2 viewAwaitingReveal \<noteq> 0
   \<and> jp_alreadyPlayedNotice (renderGameJoin False
        (loadGameInfo exampleIsAddress exampleFormatEther gameAddress
           (Some viewAwaitingReveal) (Some bob)))
   \<and> clickJoin exampleIsAddress exampleParseEther (Some bob) False gameAddress
        (loadGameInfo exampleIsAddress exampleFormatEther gameAddress
           (Some viewAwaitingReveal) (Some bob)) 0
      = None
   \<and> clickJoin exampleIsAddress exampleParseEther (Some bob) False gameAddress
        (loadGameInfo exampleIsAddress exampleFormatEther gameAddress
           (Some viewAwaitingSecondMove) (Some bob)) 0
      = Some (Play 1 100000000000000)
   \<and> toLowerCase bob = toLowerCase (view_j2 viewAwaitingSecondMove)
   \<and> view_c2 viewAwaitingSecondMove = 0"
  using join_rejections
      [where contractAddress = gameAddress and isAddress = exampleIsAddress
         and v = viewAwaitingSecondMove and caller = carol and formatEther = exampleFormatEther
         and parseEther = exampleParseEther and getSigner = "Some carol" and isJoining = False
         and move = 0 and m = 1 and w = 100000000000000,
       OF example_addresses(8) example_addresses(4) refl]
    join_rejections
      [where contractAddress = gameAddress and isAddress = exampleIsAddress
         and v = viewAwaitingReveal and caller = bob and formatEther = exampleFormatEther
         and parseEther = exampleParseEther and getSigner = "Some bob" and isJoining = False
         and move = 0 and m = 1 and w = 100000000000000,
       OF example_addresses(8) example_addresses(4) refl]
    join_rejections
      [where contractAddress = gameAddress and isAddress = exampleIsAddress
         and v = viewAwaitingSecondMove and caller = bob and formatEther = exampleFormatEther
         and parseEther = exampleParseEther and getSigner = "Some bob" and isJoining = False
         and move = 0 and m = 1 and w = 100000000000000,
       OF example_addresses(8) example_addresses(4) refl]
    example_join
  by (simp add: example_addresses example_lower example_distinct viewAwaitingReveal_def
      viewAwaitingSecondMove_def)

subsection \<open>Exporting and importing the secret\<close>

lemma hexChar_hex: "d < 16 \<Longrightarrow> isHexDigit (hexChar d)"
proof -
  assume "d < 16"
  then have "d = 0 \<or> d = 1 \<or> d = 2 \<or> d = 3 \<or> d = 4 \<or> d = 5 \<or> d = 6 \<or> d = 7
      \<or> d = 8 \<or> d = 9 \<or> d = 10 \<or> d = 11 \<or> d = 12 \<or> d = 13 \<or> d = 14 \<or> d = 15"
    by arith
  then show ?thesis
    by (elim disjE) (simp_all add: hexChar_def isHexDigit_def)
qed

lemma hexlify_digits:
  "\<forall>b \<in> set bytes. b < 256 \<Longrightarrow>
   list_all isHexDigit (concat (map (\<lambda>b. [hexChar (b div 16), hexChar (b mod 16)]) bytes))"
  by (induction bytes) (simp_all add: hexChar_hex less_mult_imp_div_less)

lemma hexlify_length:
  "length (concat (map (\<lambda>b. [hexChar (b div 16), hexChar (b mod 16)]) bytes)) = 2 * length bytes"
  by (induction bytes) simp_all

lemma hexlify_shape:
  assumes "length bytes = 32" and "list_all (\<lambda>b. b < 256) bytes"
  shows "isBytes32Hex (hexlify bytes)" and "isSecretHex (hexlify bytes)" and "hexlify bytes \<noteq> []"
  using assms hexlify_digits [of bytes] hexlify_length [of bytes]
  by (simp_all add: isBytes32Hex_def isHexString_def isSecretHex_def hexlify_def startsWith_def
      list_all_iff)

lemma hexlify_42: "hexlify (replicate 31 0 @ [42]) = salt42"
proof -
  have z: "concat (replicate n [CHR ''0'', CHR ''0'']) = replicate (2 * n) CHR ''0''" for n
    by (induction n) simp_all
  show ?thesis
    by (simp add: hexlify_def salt42_def hexChar_def z)
qed

lemma isIso_examples:
  "isIsoTimestamp ''2026-01-01T00:00:00.000Z''" "isIsoTimestamp ''2027-02-02T00:00:00.000Z''"
  by (simp_all add: isIsoTimestamp_def)

text \<open>
  C8, as amended. For a UI move in \<open>0..4\<close>, 32 random bytes and a clock reading in ISO
  form, the export record holds the move code in \<open>1..5\<close>, the secret as \<open>0x\<close> and 64
  hexadecimal digits, the commitment as \<open>0x\<close> and 64 hexadecimal digits, and the ISO
  timestamp. Importing the exported record restores the move code and the secret exactly
  as exported, and the commitment is recomputed from them by \<open>createCommitment\<close>; the
  timestamp is not restored.
\<close>

theorem secret_export_import:
  assumes "0 \<le> move" and "move \<le> 4"
    and "length randomBytes = 32" and "list_all (\<lambda>b. b < 256) randomBytes"
    and "\<And>bytes. isBytes32Hex (keccak256 bytes)"
    and "isIsoTimestamp isoNow"
  shows "\<exists>salt commitment d.
       handleGenerateSalt keccak256 randomBytes move = Inr (salt, commitment)
     \<and> handleDownloadSecret isoNow move salt commitment = Some d
     \<and> 1 \<le> sd_move d \<and> sd_move d \<le> 5 \<and> sd_move d = move + 1
     \<and> sd_salt d = salt \<and> isBytes32Hex (sd_salt d)
     \<and> sd_commitment d = commitment \<and> isBytes32Hex (sd_commitment d)
     \<and> sd_createdAt d = isoNow \<and> isIsoTimestamp (sd_createdAt d)
     \<and> handleUploadSecret (Some (writeSecretFile d)) form
         = SecretLoaded (form \<lparr> rv_move := sd_move d, rv_salt := sd_salt d \<rparr>)
     \<and> createCommitment keccak256 (sd_move d) (sd_salt d) = Inr (sd_commitment d)"
proof -
  let ?salt = "generateSalt randomBytes"
  let ?c = "keccak256 (be_bytes 32 (nat (move + 1)) @ be_bytes 32 (secretValue ?salt))"
  note shape = hexlify_shape [OF assms(3,4), folded generateSalt_def]
  have u: "uiMoveToContract move = move + 1"
    using assms(1,2) by (rule uiMoveToContract_move)
  have c: "createCommitment keccak256 (move + 1) ?salt = Inr ?c"
    using assms(1,2) shape(2) by (simp add: createCommitment_encoded)
  have g: "handleGenerateSalt keccak256 randomBytes move = Inr (?salt, ?c)"
    by (simp add: handleGenerateSalt_def Let_def u c)
  let ?d = "\<lparr> sd_move = move + 1, sd_moveName = array_get MOVES move, sd_salt = ?salt,
              sd_commitment = ?c, sd_createdAt = isoNow \<rparr>"
  have d: "handleDownloadSecret isoNow move ?salt ?c = Some ?d"
    using shape(3) by (simp add: handleDownloadSecret_def u)
  have up: "handleUploadSecret (Some (writeSecretFile ?d)) form
         = SecretLoaded (form \<lparr> rv_move := move + 1, rv_salt := ?salt \<rparr>)"
    using assms(1) shape(3) by (simp add: handleUploadSecret_def writeSecretFile_def)
  show ?thesis
    using g d up c assms(1,2,5,6) shape(1) by (intro exI [of _ ?salt] exI [of _ ?c] exI [of _ ?d]) simp
qed

lemma exampleKeccak256_shape: "isBytes32Hex (exampleKeccak256 bytes)"
  by (simp add: exampleKeccak256_def commitment342_shape)
     (simp add: isBytes32Hex_def isHexString_def startsWith_def list_all_iff isHexDigit_def)

lemma example_generate:
  "handleGenerateSalt exampleKeccak256 (replicate 31 0 @ [42]) 2 = Inr (salt42, commitment342)"
proof -
  have u: "uiMoveToContract 2 = 3"
    using uiMoveToContract_move [of 2] by simp
  have "createCommitment exampleKeccak256 3 salt42
          = Inr (exampleKeccak256 (be_bytes 32 (nat 3) @ be_bytes 32 42))"
    using createCommitment_encoded [of 3 salt42 exampleKeccak256] by (simp add: salt42_secret)
  then have "createCommitment exampleKeccak256 3 salt42 = Inr commitment342"
    by (simp add: be_bytes_32_small exampleKeccak256_def del: be_bytes.simps)
  then show ?thesis
    by (simp add: handleGenerateSalt_def generateSalt_def hexlify_42 u)
qed

lemma example_downloads:
  "handleDownloadSecret ''2026-01-01T00:00:00.000Z'' 2 salt42 commitment342 = Some exportA"
  "handleDownloadSecret ''2027-02-02T00:00:00.000Z'' 2 salt42 commitment342 = Some exportB"
proof -
  have u: "uiMoveToContract 2 = 3"
    using uiMoveToContract_move [of 2] by simp
  show "handleDownloadSecret ''2026-01-01T00:00:00.000Z'' 2 salt42 commitment342 = Some exportA"
    and "handleDownloadSecret ''2027-02-02T00:00:00.000Z'' 2 salt42 commitment342 = Some exportB"
    by (simp_all add: handleDownloadSecret_def salt42_nonempty exportA_def exportB_def u
        array_get_def MOVES_def)
qed

theorem secret_export_import_witness:
  "(0::int) \<le> 2 \<and> (2::int) \<le> 4
   \<and> length (replicate 31 0 @ [42 :: nat]) = 32
   \<and> list_all (\<lambda>b. b < 256) (replicate 31 0 @ [42 :: nat])
   \<and> isBytes32Hex (exampleKeccak256 [])
   \<and> isIsoTimestamp ''2026-01-01T00:00:00.000Z''
   \<and> handleGenerateSalt exampleKeccak256 (replicate 31 0 @ [42]) 2 = Inr (salt42, commitment342)
   \<and> handleDownloadSecret ''2026-01-01T00:00:00.000Z'' 2 salt42 commitment342 = Some exportA
   \<and> handleUploadSecret (Some (writeSecretFile exportA)) emptyForm
       = SecretLoaded \<lparr> rv_contractAddress = [], rv_move = 3, rv_salt = salt42 \<rparr>
   \<and> createCommitment exampleKeccak256 3 salt42 = Inr commitment342"
proof -
  have l: "length (replicate 31 0 @ [42 :: nat]) = 32" by simp
  have b: "list_all (\<lambda>b. b < 256) (replicate 31 0 @ [42 :: nat])"
    by (simp add: list_all_iff)
  from secret_export_import
         [of 2 "replicate 31 0 @ [42]" exampleKeccak256 "''2026-01-01T00:00:00.000Z''" emptyForm,
          OF _ _ l b exampleKeccak256_shape isIso_examples(1)]
  obtain salt commitment d where
    "handleGenerateSalt exampleKeccak256 (replicate 31 0 @ [42]) 2 = Inr (salt, commitment)"
    "handleDownloadSecret ''2026-01-01T00:00:00.000Z'' 2 salt commitment = Some d"
    "handleUploadSecret (Some (writeSecretFile d)) emptyForm
         = SecretLoaded (emptyForm \<lparr> rv_move := sd_move d, rv_salt := sd_salt d \<rparr>)"
    "createCommitment exampleKeccak256 (sd_move d) (sd_salt d) = Inr (sd_commitment d)"
    by auto
  then show ?thesis
    using l b exampleKeccak256_shape [of "[]"] isIso_examples(1)
    by (auto simp: example_generate example_downloads exportA_def emptyForm_def)
qed

text \<open>
  C8, as stated, fails: two exports of the same move and secret made at different times
  are imported to the same form, so the timestamp is not restored; and the secret and
  the commitment are written with the prefix \<open>0x\<close>, 66 characters each.
\<close>

theorem secret_import_drops_timestamp_counterexample:
  "handleGenerateSalt exampleKeccak256 (replicate 31 0 @ [42]) 2 = Inr (salt42, commitment342)
   \<and> handleDownloadSecret ''2026-01-01T00:00:00.000Z'' 2 salt42 commitment342 = Some exportA
   \<and> handleDownloadSecret ''2027-02-02T00:00:00.000Z'' 2 salt42 commitment342 = Some exportB
   \<and> sd_createdAt exportA \<noteq> sd_createdAt exportB
   \<and> handleUploadSecret (Some (writeSecretFile exportA)) emptyForm
     = handleUploadSecret (Some (writeSecretFile exportB)) emptyForm
   \<and> length (sd_salt exportA) = 66 \<and> length (sd_commitment exportA) = 66"
  by (simp add: example_generate example_downloads)
     (simp add: handleUploadSecret_def writeSecretFile_def exportA_def exportB_def
      salt42_def commitment342_def)

end
